theory Spec2Isabelle
  imports Complex_Main "HOL-Library.Multiset" "HOL-Library.Log_Nat"
begin

section \<open>Data model\<close>

text \<open>
  The JSDoc typedef \<^verbatim>\<open>McqQuestion\<close> of \<^verbatim>\<open>App.jsx\<close>. The field \<^verbatim>\<open>id\<close> is named
  \<open>qid\<close> and \<^verbatim>\<open>type\<close> is named \<open>qtype\<close>; the optional fields are options.
  \<^verbatim>\<open>answerIndex\<close> is a JavaScript number: the source never restricts it to the
  indices of \<^verbatim>\<open>choices\<close>, so it is an integer here.
\<close>

record mcq_question =
  qid :: string
  qtype :: string
  chapitre :: string
  niveau :: string
  question :: string
  choices :: "string list"
  answerIndex :: int
  explanation :: "string option"
  sources :: "string list option"

datatype view_name = Home | Quiz | Results

text \<open>
  The component state of \<^verbatim>\<open>App\<close>: one field per \<^verbatim>\<open>useState\<close> hook. The filters
  \<^verbatim>\<open>chapitre\<close> and \<^verbatim>\<open>niveau\<close> are named \<open>chapitre_filter\<close> and \<open>niveau_filter\<close>, since
  the questions have fields of the same names. \<^verbatim>\<open>count\<close> and \<^verbatim>\<open>timerMin\<close> are the values of
  number inputs and are integers here. \<^verbatim>\<open>answers\<close> is the object mapping a question id
  to the chosen choice index; times are milliseconds (\<^verbatim>\<open>Date.now()\<close>) and seconds
  (\<^verbatim>\<open>timeLeft\<close>).

  Objects used as dictionaries (\<^verbatim>\<open>answers\<close>, \<^verbatim>\<open>byChap\<close>) are maps, and reading a key
  that the map does not have gives \<open>None\<close> for \<^verbatim>\<open>undefined\<close>. That is what the code
  reads unless the key is a name every object inherits (\<open>inherited_names\<close> below):
  there the code reads the inherited member instead. The theorems about \<open>unanswered\<close>
  and about \<open>byChap\<close> therefore assume that no question id, respectively no chapter
  name, of the quiz is such a name.
\<close>

text \<open>
  The property names of \<^verbatim>\<open>Object.prototype\<close> in a browser, which every object literal
  inherits, and \<^verbatim>\<open>ok\<close> and \<^verbatim>\<open>total\<close>: for a chapter named \<^verbatim>\<open>__proto__\<close> the scoring
  loop reads \<^verbatim>\<open>Object.prototype\<close> as the entry of the chapter and writes these two
  properties onto it, after which every object inherits them as well.
\<close>

definition inherited_names :: "string list" where
  "inherited_names =
     [''constructor'', ''toString'', ''toLocaleString'', ''valueOf'', ''hasOwnProperty'',
      ''isPrototypeOf'', ''propertyIsEnumerable'', ''__proto__'', ''__defineGetter__'',
      ''__defineSetter__'', ''__lookupGetter__'', ''__lookupSetter__'', ''ok'', ''total'']"

record app_state =
  bank :: "mcq_question list"
  mode :: string
  randomize :: bool
  timerOn :: bool
  timerMin :: int
  chapitre_filter :: string
  niveau_filter :: string
  count :: int
  view :: view_name
  quiz :: "mcq_question list"
  order :: "nat list"
  idx :: nat
  answers :: "string \<rightharpoonup> nat"
  startedAt :: int
  timeLeft :: int

section \<open>Starting a session\<close>

text \<open>
  \<^verbatim>\<open>filtered\<close>: the questions of the bank that match the chapter and level filters; an
  empty filter string is falsy and matches everything.
\<close>

definition filtered :: "app_state \<Rightarrow> mcq_question list" where
  "filtered st =
     filter (\<lambda>q. (chapitre_filter st = [] \<or> chapitre q = chapitre_filter st) \<and>
                 (niveau_filter st = [] \<or> niveau q = niveau_filter st)) (bank st)"

text \<open>
  \<^verbatim>\<open>shuffle\<close> (Fisher-Yates). \<open>rnd i\<close> is the value \<^verbatim>\<open>Math.random()\<close> returns in the
  iteration whose loop variable is \<open>i\<close>; JavaScript promises \<open>0 \<le> rnd i < 1\<close>, and then
  \<^verbatim>\<open>Math.floor(Math.random() * (i + 1))\<close> is an index in \<open>0..i\<close>. The loop runs for
  \<open>i = length - 1\<close> down to \<open>1\<close>; the destructuring assignment reads both cells before it
  writes them. The product is taken exactly here: its rounding to binary64 can change
  which index of \<open>0..i\<close> a given random value selects, and every sequence of indices
  within these ranges is the result of some \<open>rnd\<close>.
\<close>

fun shuffle_loop :: "(nat \<Rightarrow> rat) \<Rightarrow> nat \<Rightarrow> 'a list \<Rightarrow> 'a list" where
  "shuffle_loop rnd 0 arr = arr"
| "shuffle_loop rnd (Suc k) arr =
     (let i = Suc k;
          j = nat \<lfloor>rnd i * of_nat (i + 1)\<rfloor>
      in shuffle_loop rnd k (arr[i := arr ! j, j := arr ! i]))"

definition shuffle :: "(nat \<Rightarrow> rat) \<Rightarrow> 'a list \<Rightarrow> 'a list" where
  "shuffle rnd a = shuffle_loop rnd (length a - 1) a"

text \<open>
  \<^verbatim>\<open>list.slice(0, end)\<close>: a negative \<^verbatim>\<open>end\<close> counts from the end of the array, and the
  result is clamped to the array.
\<close>

definition slice0 :: "'a list \<Rightarrow> int \<Rightarrow> 'a list" where
  "slice0 xs e =
     (let len = int (length xs);
          final = (if e < 0 then max (len + e) 0 else min e len)
      in take (nat final) xs)"

text \<open>
  \<^verbatim>\<open>start\<close>. \<open>now\<close> is \<^verbatim>\<open>Date.now()\<close>; the second component is the text of the alert,
  if one is shown.
\<close>

definition start :: "(nat \<Rightarrow> rat) \<Rightarrow> int \<Rightarrow> app_state \<Rightarrow> app_state \<times> string option" where
  "start rnd now st =
     (if length (filtered st) = 0
      then (st, Some ''Aucune question ne correspond aux filtres.'')
      else
        let list = (if randomize st then shuffle rnd (filtered st) else filtered st);
            slice = slice0 list (min (count st) (int (length list)))
        in (st\<lparr>quiz := slice,
                order := [0..<length slice],
                answers := Map.empty,
                idx := 0,
                startedAt := now,
                timeLeft := (if timerOn st then timerMin st * 60 else 0),
                view := Quiz\<rparr>, None))"

section \<open>Answering and navigating\<close>

text \<open>
  \<^verbatim>\<open>function record(q, choiceIdx) { setAnswers(a => ({ ...a, [q.id]: choiceIdx })); }\<close>
  The updater function is applied to the latest state.
\<close>

definition record_answer :: "mcq_question \<Rightarrow> nat \<Rightarrow> app_state \<Rightarrow> app_state" where
  "record_answer q choiceIdx st = st\<lparr>answers := (answers st)(qid q \<mapsto> choiceIdx)\<rparr>"

text \<open>
  \<^verbatim>\<open>quiz.filter(q => answers[q.id] == null).length\<close>, the first line of \<^verbatim>\<open>finish\<close>, for
  a quiz none of whose ids is in \<open>inherited_names\<close>: for such an id without a recorded
  answer the code reads the inherited member, which is not \<^verbatim>\<open>null\<close>, and counts the
  question as answered.
\<close>

definition unanswered :: "app_state \<Rightarrow> nat" where
  "unanswered r = length (filter (\<lambda>q. answers r (qid q) = None) (quiz r))"

text \<open>
  \<^verbatim>\<open>finish\<close>. A function of a React component is a closure of the render that created
  it: \<open>finish r accept st\<close> reads \<^verbatim>\<open>quiz\<close>, \<^verbatim>\<open>answers\<close> and \<^verbatim>\<open>view\<close> of that render \<open>r\<close>,
  and its \<^verbatim>\<open>setView\<close> updates the current state \<open>st\<close>. \<open>accept\<close> is what the user answers
  to \<^verbatim>\<open>confirm\<close> when the dialog is shown. The first component of the result tells
  whether the dialog was shown.
\<close>

definition finish :: "app_state \<Rightarrow> bool \<Rightarrow> app_state \<Rightarrow> bool \<times> app_state" where
  "finish r accept st =
     (if unanswered r > 0 \<and> view r = Quiz
      then (if \<not> accept then (True, st) else (True, st\<lparr>view := Results\<rparr>))
      else (False, st\<lparr>view := Results\<rparr>))"

text \<open>
  \<^verbatim>\<open>next\<close>, called from the button of the current render: at the last question it
  calls \<open>finish\<close> of that render.
\<close>

definition next_question :: "bool \<Rightarrow> app_state \<Rightarrow> bool \<times> app_state" where
  "next_question accept st =
     (if idx st + 1 < length (order st) then (False, st\<lparr>idx := idx st + 1\<rparr>)
      else finish st accept st)"

section \<open>The timer\<close>

text \<open>
  The timer effect runs after a render \<open>r\<close> in which \<^verbatim>\<open>view\<close>, \<^verbatim>\<open>timerOn\<close>,
  \<^verbatim>\<open>timerMin\<close> or \<^verbatim>\<open>startedAt\<close> changed. It returns at once unless the view is the
  quiz and the timer is on; otherwise it sets \<^verbatim>\<open>startedAt\<close> if that is still \<open>0\<close> and
  installs an interval whose callback is a closure of \<open>r\<close>. The result is the updated
  state and whether the interval was installed.
\<close>

definition timer_effect :: "int \<Rightarrow> app_state \<Rightarrow> app_state \<times> bool" where
  "timer_effect now r =
     (if view r \<noteq> Quiz \<or> \<not> timerOn r then (r, False)
      else ((if startedAt r = 0 then r\<lparr>startedAt := now\<rparr> else r), True))"

text \<open>
  The interval callback installed after render \<open>r\<close>, run at time \<open>now\<close> on the current
  state \<open>st\<close>. \<^verbatim>\<open>timerMin\<close>, \<^verbatim>\<open>startedAt\<close> and \<^verbatim>\<open>finish\<close> are those of \<open>r\<close>. Times are
  integers, so \<^verbatim>\<open>Math.floor(ms / 1000)\<close> is integer division.
\<close>

definition timer_tick :: "app_state \<Rightarrow> int \<Rightarrow> bool \<Rightarrow> app_state \<Rightarrow> bool \<times> app_state" where
  "timer_tick r now accept st =
     (let total = timerMin r * 60;
          elapsed = (now - (if startedAt r = 0 then now else startedAt r)) div 1000;
          left = max 0 (total - elapsed);
          st1 = st\<lparr>timeLeft := left\<rparr>
      in if left \<le> 0 then finish r accept st1 else (False, st1))"

section \<open>Leaving a session\<close>

text \<open>
  \<^verbatim>\<open>restartToHome\<close>, the handler of the button "Quitter" of the quiz view.
\<close>

definition restartToHome :: "app_state \<Rightarrow> app_state" where
  "restartToHome st =
     st\<lparr>view := Home, quiz := [], order := [], idx := 0, answers := Map.empty,
        startedAt := 0, timeLeft := 0\<rparr>"

text \<open>
  The handler of the button "Nouvelle session" of the results view:
  \<^verbatim>\<open>onClick={()=>setView("home")}\<close>.
\<close>

definition nouvelle_session :: "app_state \<Rightarrow> app_state" where
  "nouvelle_session st = st\<lparr>view := Home\<rparr>"

section \<open>Exporting the results\<close>

definition dquote :: char where
  "dquote = CHR 0x22"

text \<open>
  \<^verbatim>\<open>s.replaceAll('"', '""')\<close>: every double quote of \<open>s\<close> is written twice.
\<close>

fun replaceAll_quote :: "string \<Rightarrow> string" where
  "replaceAll_quote [] = []"
| "replaceAll_quote (c # cs) =
     (if c = dquote then [dquote, dquote] else [c]) @ replaceAll_quote cs"

text \<open>
  \<^verbatim>\<open>'"' + s + '"'\<close> and \<^verbatim>\<open>Array.prototype.join\<close> on an array of strings.
\<close>

definition quoted :: "string \<Rightarrow> string" where
  "quoted s = [dquote] @ s @ [dquote]"

fun js_join :: "string \<Rightarrow> string list \<Rightarrow> string" where
  "js_join sep [] = []"
| "js_join sep [x] = x"
| "js_join sep (x # y # ys) = x @ sep @ js_join sep (y # ys)"

text \<open>
  The nine fields of the row of one question, in the order of the array literal in
  \<^verbatim>\<open>exportResultsCSV\<close>. \<open>ans\<close> is \<^verbatim>\<open>answers[q.id]\<close>. The result is \<open>None\<close> when
  \<^verbatim>\<open>q.choices[ans]\<close> is undefined, where \<^verbatim>\<open>.replaceAll\<close> throws a TypeError. As for
  \<open>unanswered\<close>, the ids are taken not to be in \<open>inherited_names\<close>.
\<close>

definition csv_fields :: "(string \<rightharpoonup> nat) \<Rightarrow> mcq_question \<Rightarrow> string list option" where
  "csv_fields answrs q =
     (let ans = answrs (qid q);
          correct = (case ans of None \<Rightarrow> False | Some a \<Rightarrow> int a = answerIndex q);
          srcs = (case sources q of Some ss \<Rightarrow> js_join '' || '' ss | None \<Rightarrow> [])
      in case (case ans of
                 None \<Rightarrow> Some []
               | Some a \<Rightarrow>
                   if a < length (choices q) then Some (replaceAll_quote (choices q ! a))
                   else None) of
           None \<Rightarrow> None
         | Some chosen \<Rightarrow>
             Some [qid q,
                   quoted (chapitre q),
                   niveau q,
                   quoted (replaceAll_quote (question q)),
                   quoted (js_join '' | '' (map replaceAll_quote (choices q))),
                   quoted chosen,
                   (if correct then ''1'' else ''0''),
                   quoted (case explanation q of Some e \<Rightarrow> replaceAll_quote e | None \<Rightarrow> []),
                   quoted (replaceAll_quote srcs)])"

text \<open>
  The loop over the quiz: one line per question, each the fields joined by \<open>;\<close>. An
  exception leaves the loop and the function.
\<close>

fun csv_lines :: "(string \<rightharpoonup> nat) \<Rightarrow> mcq_question list \<Rightarrow> string list option" where
  "csv_lines answrs [] = Some []"
| "csv_lines answrs (q # qs) =
     (case csv_fields answrs q of
        None \<Rightarrow> None
      | Some fs \<Rightarrow>
          (case csv_lines answrs qs of
             None \<Rightarrow> None
           | Some ls \<Rightarrow> Some (js_join '';'' fs # ls)))"

datatype export_result = NoExport | ExportThrows | Download string string

definition csv_header :: string where
  "csv_header = ''id;chapitre;niveau;question;choix;reponse;correct;explication;sources''"

text \<open>
  \<^verbatim>\<open>exportResultsCSV\<close>: nothing happens for an empty quiz; otherwise the header and the
  lines, joined by newlines, are downloaded as \<^verbatim>\<open>resultats_qcm_acca.csv\<close>.
\<close>

definition exportResultsCSV :: "app_state \<Rightarrow> export_result" where
  "exportResultsCSV st =
     (if length (quiz st) = 0 then NoExport
      else case csv_lines (answers st) (quiz st) of
             None \<Rightarrow> ExportThrows
           | Some ls \<Rightarrow>
               Download ''resultats_qcm_acca.csv'' (js_join [CHR 0x0A] (csv_header # ls)))"

text \<open>
  What escaping by doubling gives: read from the left, every double quote is followed by
  a second one, and the two are skipped together.
\<close>

fun quotes_doubled :: "string \<Rightarrow> bool" where
  "quotes_doubled [] = True"
| "quotes_doubled [c] = (c \<noteq> dquote)"
| "quotes_doubled (c # d # cs) =
     (if c = dquote then d = dquote \<and> quotes_doubled cs else quotes_doubled (d # cs))"

section \<open>Importing a bank\<close>

text \<open>
  What \<^verbatim>\<open>JSON.parse\<close> returns. The import validates these untyped values and stores the
  array as it is, so the imported bank is a list of them; \<open>mcq_question\<close> above is the
  shape the rest of the program expects of each element. The list of a \<open>JObj\<close> holds
  the properties of the object.
\<close>

datatype json =
    JNull
  | JBool bool
  | JNum rat
  | JStr string
  | JArr "json list"
  | JObj "(string \<times> json) list"

text \<open>
  Reading one of the properties \<^verbatim>\<open>type\<close>, \<^verbatim>\<open>choices\<close>, \<^verbatim>\<open>answerIndex\<close> and
  \<^verbatim>\<open>sources\<close> of a value other than \<^verbatim>\<open>null\<close>: \<open>None\<close> is \<^verbatim>\<open>undefined\<close>, which is what a
  boolean, a number, a string and an array give for these names.
\<close>

fun get_prop :: "json \<Rightarrow> string \<Rightarrow> json option" where
  "get_prop (JObj kvs) k = map_of kvs k"
| "get_prop _ k = None"

fun truthy :: "json \<Rightarrow> bool" where
  "truthy JNull = False"
| "truthy (JBool b) = b"
| "truthy (JNum n) = (n \<noteq> 0)"
| "truthy (JStr s) = (s \<noteq> [])"
| "truthy (JArr xs) = True"
| "truthy (JObj kvs) = True"

fun isArray :: "json option \<Rightarrow> bool" where
  "isArray (Some (JArr xs)) = True"
| "isArray _ = False"

fun isNumber :: "json option \<Rightarrow> bool" where
  "isNumber (Some (JNum n)) = True"
| "isNumber _ = False"

datatype import_error =
    SyntaxError
  | TypeError
  | NotAnArray
  | NotMcq
  | NoChoicesOrAnswerIndex
  | SourcesNotAnArray

text \<open>
  The body of the validation loop for one element \<open>q\<close>: the error thrown, if any.
  Reading \<^verbatim>\<open>q.type\<close> of \<^verbatim>\<open>null\<close> throws a TypeError. The third check is
  \<^verbatim>\<open>q.sources && !Array.isArray(q.sources)\<close>.
\<close>

definition check_question :: "json \<Rightarrow> import_error option" where
  "check_question q =
     (if q = JNull then Some TypeError
      else if get_prop q ''type'' \<noteq> Some (JStr ''mcq'') then Some NotMcq
      else if \<not> isArray (get_prop q ''choices'') \<or> \<not> isNumber (get_prop q ''answerIndex'')
        then Some NoChoicesOrAnswerIndex
      else if (case get_prop q ''sources'' of None \<Rightarrow> False | Some v \<Rightarrow> truthy v \<and> \<not> isArray (Some v))
        then Some SourcesNotAnArray
      else None)"

fun check_all :: "json list \<Rightarrow> import_error option" where
  "check_all [] = None"
| "check_all (q # qs) =
     (case check_question q of Some e \<Rightarrow> Some e | None \<Rightarrow> check_all qs)"

datatype import_alert = Imported | ImportFailed import_error

text \<open>
  The \<^verbatim>\<open>onload\<close> handler of \<^verbatim>\<open>importBankFromFile\<close>. \<open>parsed\<close> is the result of
  \<^verbatim>\<open>JSON.parse\<close>, \<open>None\<close> when it throws; \<open>cur\<close> is the bank at that moment. The result
  is the bank afterwards and the alert shown: every exception is caught and reported.
\<close>

definition importBank :: "json option \<Rightarrow> json list \<Rightarrow> json list \<times> import_alert" where
  "importBank parsed cur =
     (case parsed of
        None \<Rightarrow> (cur, ImportFailed SyntaxError)
      | Some data \<Rightarrow>
          (case data of
             JArr qs \<Rightarrow>
               (case check_all qs of
                  Some e \<Rightarrow> (cur, ImportFailed e)
                | None \<Rightarrow> (qs, Imported))
           | _ \<Rightarrow> (cur, ImportFailed NotAnArray)))"

text \<open>
  The invariant of the data model on an imported element: \<^verbatim>\<open>answerIndex\<close> is an index
  of \<^verbatim>\<open>choices\<close>.
\<close>

definition answerIndex_in_bounds :: "json \<Rightarrow> bool" where
  "answerIndex_in_bounds q =
     (case (get_prop q ''choices'', get_prop q ''answerIndex'') of
        (Some (JArr cs), Some (JNum n)) \<Rightarrow>
          of_int \<lfloor>n\<rfloor> = n \<and> 0 \<le> n \<and> n < of_nat (length cs)
      | _ \<Rightarrow> False)"

section \<open>Scoring\<close>

text \<open>
  JavaScript numbers are IEEE 754 binary64 values, and \<^verbatim>\<open>/\<close> and \<^verbatim>\<open>*\<close> return the
  binary64 value nearest to the exact result, ties going to the even significand.
  \<open>to_double\<close> is that rounding on the rationals: \<open>binade x\<close> is the exponent \<open>e\<close> with
  \<open>2 ^ e \<le> x < 2 ^ (e + 1)\<close>, and the result is the nearest multiple of \<open>2 ^ (e - 52)\<close>.
  The exponent range is not modelled: the values rounded here are quotients of array
  lengths and their products with \<open>100\<close>, far from overflow and underflow.
\<close>

definition round_even :: "rat \<Rightarrow> int" where
  "round_even y =
     (let f = \<lfloor>y\<rfloor>; d = y - of_int f
      in if d < 1 / 2 then f else if 1 / 2 < d then f + 1 else if even f then f else f + 1)"

definition binade :: "rat \<Rightarrow> int" where
  "binade x =
     (let (p, q) = quotient_of x; d = bitlen p - bitlen q
      in if 2 powi d \<le> x then d else d - 1)"

definition to_double :: "rat \<Rightarrow> rat" where
  "to_double x =
     (if x = 0 then 0
      else let ulp = 2 powi (binade \<bar>x\<bar> - 52)
           in sgn x * of_int (round_even (\<bar>x\<bar> / ulp)) * ulp)"

text \<open>
  \<^verbatim>\<open>Math.round\<close>: the nearest integer, a tie going up.
\<close>

definition Math_round :: "rat \<Rightarrow> int" where
  "Math_round x = \<lfloor>x + 1 / 2\<rfloor>"

text \<open>
  The objects \<^verbatim>\<open>{ ok, total }\<close> of \<^verbatim>\<open>byChap\<close> and the object \<^verbatim>\<open>{ ok, total, pct, byChap }\<close>
  that the memo returns; \<^verbatim>\<open>total\<close> is named \<open>total_n\<close>.
\<close>

record chap_score =
  ok :: nat
  total_n :: nat

record score_result = chap_score +
  pct :: int
  byChap :: "string \<rightharpoonup> chap_score"

text \<open>
  \<^verbatim>\<open>const good = answers[q.id] === q.answerIndex\<close>
\<close>

definition good :: "(string \<rightharpoonup> nat) \<Rightarrow> mcq_question \<Rightarrow> bool" where
  "good answrs q = (case answrs (qid q) of None \<Rightarrow> False | Some a \<Rightarrow> int a = answerIndex q)"

text \<open>
  The loop of the memo, with its two accumulators \<^verbatim>\<open>ok\<close> and \<^verbatim>\<open>byChap\<close>. The entry of
  the chapter is created with zeros when it is missing (\<open>entry_of\<close>), then counted up.
  This is the loop for a quiz none of whose chapter names is in \<open>inherited_names\<close>: for
  such a chapter \<^verbatim>\<open>!byChap[q.chapitre]\<close> is false in the code, no entry is created and
  the counts are written onto the inherited member.
\<close>

definition entry_of :: "(string \<rightharpoonup> chap_score) \<Rightarrow> string \<Rightarrow> chap_score" where
  "entry_of by_chap c =
     (case by_chap c of None \<Rightarrow> \<lparr>ok = 0, total_n = 0\<rparr> | Some e \<Rightarrow> e)"

fun score_loop ::
  "(string \<rightharpoonup> nat) \<Rightarrow> mcq_question list \<Rightarrow> nat \<Rightarrow> (string \<rightharpoonup> chap_score) \<Rightarrow>
     nat \<times> (string \<rightharpoonup> chap_score)" where
  "score_loop answrs [] n_ok by_chap = (n_ok, by_chap)"
| "score_loop answrs (q # qs) n_ok by_chap =
     (let g = good answrs q;
          n_ok1 = (if g then n_ok + 1 else n_ok);
          e0 = entry_of by_chap (chapitre q);
          e1 = e0\<lparr>total_n := total_n e0 + 1\<rparr>;
          e2 = (if g then e1\<lparr>ok := ok e1 + 1\<rparr> else e1)
      in score_loop answrs qs n_ok1 (by_chap(chapitre q \<mapsto> e2)))"

text \<open>
  \<^verbatim>\<open>total ? Math.round((ok / total) * 100) : 0\<close>, the division and the multiplication
  each rounded to binary64.
\<close>

definition percent :: "nat \<Rightarrow> nat \<Rightarrow> int" where
  "percent n_ok n_total =
     (if n_total = 0 then 0
      else Math_round (to_double (to_double (of_nat n_ok / of_nat n_total) * 100)))"

text \<open>
  The memo \<^verbatim>\<open>score\<close>: \<^verbatim>\<open>null\<close> outside the results view.
\<close>

definition score :: "app_state \<Rightarrow> score_result option" where
  "score st =
     (if view st \<noteq> Results then None
      else
        let (n_ok, by_chap) = score_loop (answers st) (quiz st) 0 Map.empty;
            n_total = length (quiz st)
        in Some \<lparr>ok = n_ok, total_n = n_total, pct = percent n_ok n_total,
                  byChap = by_chap\<rparr>)"

section \<open>Example data\<close>

definition mk_question :: "string \<Rightarrow> string \<Rightarrow> int \<Rightarrow> mcq_question" where
  "mk_question i c a =
     \<lparr>qid = i, qtype = ''mcq'', chapitre = c, niveau = ''avance'', question = ''Q?'',
      choices = [''a'', ''b'', ''c''], answerIndex = a, explanation = None, sources = None\<rparr>"

definition st_home :: app_state where
  "st_home =
     \<lparr>bank = [mk_question ''q1'' ''Mesure'' 1, mk_question ''q2'' ''Extinction'' 0,
              mk_question ''q3'' ''Mesure'' 2],
      mode = ''examen'', randomize = True, timerOn = True, timerMin = 1,
      chapitre_filter = [], niveau_filter = [], count = 2, view = Home, quiz = [],
      order = [], idx = 0, answers = Map.empty, startedAt = 0, timeLeft = 0\<rparr>"

definition st_quiz :: app_state where
  "st_quiz =
     st_home\<lparr>view := Quiz, quiz := [mk_question ''q2'' ''Extinction'' 0, mk_question ''q3'' ''Mesure'' 2],
       order := [0, 1], startedAt := 5000, timeLeft := 60\<rparr>"

definition rnd_quarter :: "nat \<Rightarrow> rat" where
  "rnd_quarter i = 1 / 4"

definition st_results :: app_state where
  "st_results = st_quiz\<lparr>answers := [''q2'' \<mapsto> 0], timeLeft := 42, view := Results\<rparr>"

definition rec_ok :: json where
  "rec_ok =
     JObj [(''id'', JStr ''a1''), (''type'', JStr ''mcq''),
           (''choices'', JArr [JStr ''x'', JStr ''y'']), (''answerIndex'', JNum 0)]"

definition rec_no_answerIndex :: json where
  "rec_no_answerIndex =
     JObj [(''id'', JStr ''a2''), (''type'', JStr ''mcq''),
           (''choices'', JArr [JStr ''x'', JStr ''y''])]"

definition rec_sources_numbers :: json where
  "rec_sources_numbers =
     JObj [(''id'', JStr ''a3''), (''type'', JStr ''mcq''),
           (''choices'', JArr [JStr ''x'', JStr ''y'']), (''answerIndex'', JNum 0),
           (''sources'', JArr [JNum 1, JStr ''s''])]"

definition rec_out_of_bounds :: json where
  "rec_out_of_bounds =
     JObj [(''id'', JStr ''a4''), (''type'', JStr ''mcq''),
           (''choices'', JArr [JStr ''x'', JStr ''y'']), (''answerIndex'', JNum 7)]"

definition st_four :: app_state where
  "st_four =
     st_results\<lparr>bank := [mk_question ''q1'' ''Mesure'' 1, mk_question ''q2'' ''Extinction'' 0,
                          mk_question ''q3'' ''Mesure'' 2, mk_question ''q4'' ''Mesure'' 0],
       randomize := False, count := 4,
       quiz := [mk_question ''q1'' ''Mesure'' 1, mk_question ''q2'' ''Extinction'' 0,
                mk_question ''q3'' ''Mesure'' 2, mk_question ''q4'' ''Mesure'' 0],
       order := [0, 1, 2, 3],
       answers := [''q1'' \<mapsto> 1, ''q2'' \<mapsto> 0, ''q3'' \<mapsto> 2, ''q4'' \<mapsto> 1]\<rparr>"

text \<open>
  Forty questions with the ids \<open>q\<close>, \<open>qq\<close>, \<open>qqq\<close> and so on; the right answer is the
  first choice for the first 23 of them and the second choice for the others, and the
  first choice is recorded for every question.
\<close>

definition quiz_forty :: "mcq_question list" where
  "quiz_forty =
     map (\<lambda>i. mk_question (replicate (Suc i) CHR ''q'') ''Mesure'' (if i < 23 then 0 else 1))
       [0..<40]"

definition st_forty :: app_state where
  "st_forty =
     st_results\<lparr>bank := quiz_forty, randomize := False, count := 40,
       quiz := quiz_forty, order := [0..<40],
       answers := map_of (map (\<lambda>q. (qid q, 0)) quiz_forty)\<rparr>"

definition q_quote :: mcq_question where
  \<open>q_quote =
     \<lparr>qid = ''q9'', qtype = ''mcq'', chapitre = ''Ch "A"'', niveau = ''avance'',
      question = ''Is "x" ok?'', choices = [''yes'', ''say "no"''], answerIndex = 1,
      explanation = Some ''see "ref"'', sources = Some [''S "1"'', ''T'']\<rparr>\<close>

definition st_quote :: app_state where
  "st_quote =
     st_results\<lparr>bank := [q_quote], quiz := [q_quote], order := [0],
       answers := [''q9'' \<mapsto> 1]\<rparr>"

section \<open>Properties of starting a session\<close>

lemma random_index_le:
  assumes "0 \<le> (r::rat)" "r < 1"
  shows "nat \<lfloor>r * of_nat (Suc i)\<rfloor> \<le> i"
proof -
  have "r * of_nat (Suc i) < 1 * of_nat (Suc i)"
    using assms by (intro mult_strict_right_mono) simp_all
  then have "\<lfloor>r * of_nat (Suc i)\<rfloor> < int (Suc i)"
    by (simp add: floor_less_iff)
  then show ?thesis by linarith
qed

lemma shuffle_loop_mset:
  assumes "\<forall>i. 0 \<le> rnd i \<and> rnd i < 1"
  shows "k < length arr \<Longrightarrow> mset (shuffle_loop rnd k arr) = mset arr"
proof (induction k arbitrary: arr)
  case 0
  then show ?case by simp
next
  case (Suc k)
  let ?j = "nat \<lfloor>rnd (Suc k) * of_nat (Suc (Suc k))\<rfloor>"
  have j: "?j \<le> Suc k"
    using assms random_index_le [of "rnd (Suc k)" "Suc k"] by simp
  then have "?j < length arr"
    using Suc.prems by linarith
  then have "mset (arr[Suc k := arr ! ?j, ?j := arr ! Suc k]) = mset arr"
    using Suc.prems by (simp add: mset_swap)
  moreover have "k < length (arr[Suc k := arr ! ?j, ?j := arr ! Suc k])"
    using Suc.prems by simp
  ultimately show ?case
    using Suc.IH [of "arr[Suc k := arr ! ?j, ?j := arr ! Suc k]"] by (simp add: Let_def)
qed

lemma shuffle_mset:
  assumes "\<forall>i. 0 \<le> rnd i \<and> rnd i < 1"
  shows "mset (shuffle rnd a) = mset a"
proof (cases a)
  case Nil
  then show ?thesis by (simp add: shuffle_def)
next
  case (Cons x xs)
  then have "length a - 1 < length a" by simp
  then show ?thesis
    unfolding shuffle_def by (rule shuffle_loop_mset [OF assms])
qed

lemma slice0_take:
  "0 \<le> e \<Longrightarrow> slice0 xs e = take (nat e) xs"
  by (simp add: slice0_def Let_def min_def)

lemma filtered_st_home: "filtered st_home = bank st_home"
  by (simp add: filtered_def st_home_def)

lemma start_st_home: "start rnd_quarter 5000 st_home = (st_quiz, None)"
  by (simp add: start_def filtered_st_home Let_def)
    (simp add: st_home_def st_quiz_def shuffle_def slice0_def rnd_quarter_def
      mk_question_def numeral_2_eq_2)

text \<open>
  C7: when the filtered set is not empty (otherwise \<open>start\<close> only shows an alert), its
  ids are pairwise distinct and the configured count is not negative, the quiz built by
  \<open>start\<close> has exactly \<open>min count (length filtered)\<close> questions, no two of them share an
  id, and each of them is a question of the filtered set. The random source returns
  values in \<open>[0, 1)\<close>, as \<^verbatim>\<open>Math.random\<close> does.
\<close>

theorem start_builds_quiz:
  assumes rnd: "\<forall>i. 0 \<le> rnd i \<and> rnd i < 1"
    and ne: "filtered st \<noteq> []"
    and ids: "distinct (map qid (filtered st))"
    and cnt: "0 \<le> count st"
  shows "length (quiz (fst (start rnd now st))) = min (nat (count st)) (length (filtered st)) \<and>
         distinct (map qid (quiz (fst (start rnd now st)))) \<and>
         set (quiz (fst (start rnd now st))) \<subseteq> set (filtered st)"
proof -
  define list where "list = (if randomize st then shuffle rnd (filtered st) else filtered st)"
  have ms: "mset list = mset (filtered st)"
    by (simp add: list_def shuffle_mset [OF rnd])
  have len: "length list = length (filtered st)"
    using ms by (rule mset_eq_length)
  have st: "set list = set (filtered st)"
    using ms by (rule mset_eq_setD)
  have "mset (map qid list) = mset (map qid (filtered st))"
    using ms by simp
  then have dl: "distinct (map qid list)"
    using ids mset_eq_imp_distinct_iff by blast
  have q: "quiz (fst (start rnd now st)) = take (nat (count st)) list"
    using ne cnt by (simp add: start_def list_def [symmetric] Let_def slice0_take min_def len)
  have "length (take (nat (count st)) list) = min (nat (count st)) (length (filtered st))"
    by (simp add: len min_def)
  moreover have "distinct (map qid (take (nat (count st)) list))"
    using dl by (simp add: take_map [symmetric])
  moreover have "set (take (nat (count st)) list) \<subseteq> set (filtered st)"
    using set_take_subset [of "nat (count st)" list] st by simp
  ultimately show ?thesis
    by (simp only: q)
qed

theorem start_builds_quiz_witness:
  "(\<forall>i. 0 \<le> rnd_quarter i \<and> rnd_quarter i < 1) \<and> filtered st_home \<noteq> [] \<and>
   distinct (map qid (filtered st_home)) \<and> 0 \<le> count st_home \<and>
   map qid (quiz (fst (start rnd_quarter 5000 st_home))) = [''q2'', ''q3''] \<and>
   length (quiz (fst (start rnd_quarter 5000 st_home))) =
     min (nat (count st_home)) (length (filtered st_home)) \<and>
   distinct (map qid (quiz (fst (start rnd_quarter 5000 st_home)))) \<and>
   set (quiz (fst (start rnd_quarter 5000 st_home))) \<subseteq> set (filtered st_home)"
proof -
  have h1: "\<forall>i. 0 \<le> rnd_quarter i \<and> rnd_quarter i < 1"
    by (simp add: rnd_quarter_def)
  have h2: "filtered st_home \<noteq> []"
    by (simp add: filtered_st_home) (simp add: st_home_def)
  have h3: "distinct (map qid (filtered st_home))"
    by (simp add: filtered_st_home) (simp add: st_home_def mk_question_def)
  have h4: "0 \<le> count st_home"
    by (simp add: st_home_def)
  have e: "map qid (quiz (fst (start rnd_quarter 5000 st_home))) = [''q2'', ''q3'']"
    by (simp add: start_st_home) (simp add: st_quiz_def mk_question_def)
  show ?thesis
    using start_builds_quiz [OF h1 h2 h3 h4, of 5000] h1 h2 h3 h4 e by simp
qed

section \<open>Properties of recording an answer\<close>

text \<open>
  C9: recording an answer stores the choice index under the question's id, and a second
  record for the same id replaces the first: only the latest choice is retained.
\<close>

theorem record_overwrites:
  "qid q' = qid q \<Longrightarrow>
     answers (record_answer q c st) (qid q) = Some c \<and>
     answers (record_answer q' c' (record_answer q c st)) (qid q) = Some c' \<and>
     record_answer q' c' (record_answer q c st) = record_answer q' c' st"
  by (simp add: record_answer_def)

theorem record_overwrites_witness:
  "qid (mk_question ''q2'' ''Mesure'' 1) = qid (mk_question ''q2'' ''Extinction'' 0) \<and>
   answers (record_answer (mk_question ''q2'' ''Mesure'' 1) 2
     (record_answer (mk_question ''q2'' ''Extinction'' 0) 1 st_quiz)) ''q2'' = Some 2"
proof -
  have h: "qid (mk_question ''q2'' ''Mesure'' 1) = qid (mk_question ''q2'' ''Extinction'' 0)"
    by (simp add: mk_question_def)
  have q: "qid (mk_question ''q2'' ''Extinction'' 0) = ''q2''"
    by (simp add: mk_question_def)
  show ?thesis
    using record_overwrites [OF h, of 1 st_quiz 2] h unfolding q by blast
qed

text \<open>
  C10: recording an answer for a question leaves every entry of the answers map under
  another id unchanged, and leaves the quiz list, the order, the current index, the
  view, the timer state and every other field of the state unchanged.
\<close>

theorem record_frame:
  "k \<noteq> qid q \<Longrightarrow>
     answers (record_answer q c st) k = answers st k \<and>
     quiz (record_answer q c st) = quiz st \<and>
     order (record_answer q c st) = order st \<and>
     idx (record_answer q c st) = idx st \<and>
     view (record_answer q c st) = view st \<and>
     startedAt (record_answer q c st) = startedAt st \<and>
     timeLeft (record_answer q c st) = timeLeft st \<and>
     timerOn (record_answer q c st) = timerOn st \<and>
     timerMin (record_answer q c st) = timerMin st \<and>
     record_answer q c st = st\<lparr>answers := answers (record_answer q c st)\<rparr>"
  by (simp add: record_answer_def)

theorem record_frame_witness:
  "''q2'' \<noteq> qid (mk_question ''q3'' ''Mesure'' 2) \<and>
   answers (record_answer (mk_question ''q3'' ''Mesure'' 2) 1 st_results) ''q2'' = Some 0 \<and>
   view (record_answer (mk_question ''q3'' ''Mesure'' 2) 1 st_results) = Results \<and>
   timeLeft (record_answer (mk_question ''q3'' ''Mesure'' 2) 1 st_results) = 42"
proof -
  have h: "''q2'' \<noteq> qid (mk_question ''q3'' ''Mesure'' 2)"
    by (simp add: mk_question_def)
  have a: "answers st_results ''q2'' = Some 0" "view st_results = Results"
    "timeLeft st_results = 42"
    by (simp_all add: st_results_def)
  show ?thesis
    using record_frame [OF h, of 1 st_results] h a by simp
qed

section \<open>Properties of the timer and of finishing\<close>

lemma finish_outside_quiz:
  "view r \<noteq> Quiz \<Longrightarrow> finish r accept st = (False, st\<lparr>view := Results\<rparr>)"
  by (simp add: finish_def)

lemma next_question_last:
  "\<not> idx st + 1 < length (order st) \<Longrightarrow> next_question accept st = finish st accept st"
  by (simp add: next_question_def)

lemma unanswered_st_quiz: "unanswered st_quiz = 2"
  by (simp add: unanswered_def st_quiz_def st_home_def mk_question_def)

lemma timer_effect_st_quiz: "timer_effect 5000 st_quiz = (st_quiz, True)"
  by (simp add: timer_effect_def st_quiz_def st_home_def)

text \<open>
  C1 as the code has it, for a quiz none of whose question ids is a name that every
  object inherits: when the interval installed after render \<open>r\<close> finds that the
  time is up, it sets \<^verbatim>\<open>timeLeft\<close> to \<open>0\<close> and calls \<open>finish\<close> of that render. If the
  quiz of \<open>r\<close> has a question without an answer, the confirmation dialog is shown, and
  the view becomes the results only if the user accepts; if the user declines, the
  session stays in the quiz. With no unanswered question the view becomes the results
  and no dialog is shown.
\<close>

theorem timer_expiry_finish:
  assumes installed: "snd (timer_effect t0 r)"
    and started: "startedAt r \<noteq> 0"
    and expired: "timerMin r * 60 \<le> (now - startedAt r) div 1000"
    and ids: "\<forall>q \<in> set (quiz r). qid q \<notin> set inherited_names"
  shows "timer_tick r now accept st =
           (if unanswered r > 0
            then (True, if accept then st\<lparr>timeLeft := 0, view := Results\<rparr> else st\<lparr>timeLeft := 0\<rparr>)
            else (False, st\<lparr>timeLeft := 0, view := Results\<rparr>))"
proof -
  have v: "view r = Quiz"
    using installed by (simp add: timer_effect_def split: if_splits)
  have "timer_tick r now accept st = finish r accept (st\<lparr>timeLeft := 0\<rparr>)"
    using started expired by (simp add: timer_tick_def Let_def max_def)
  then show ?thesis
    by (simp add: finish_def v)
qed

theorem timer_expiry_finish_witness:
  "snd (timer_effect 5000 st_quiz) \<and> startedAt st_quiz \<noteq> 0 \<and>
   timerMin st_quiz * 60 \<le> (65000 - startedAt st_quiz) div 1000 \<and>
   map qid (quiz st_quiz) = [''q2'', ''q3''] \<and>
   ''q2'' \<notin> set inherited_names \<and> ''q3'' \<notin> set inherited_names \<and>
   timer_tick st_quiz 65000 True st_quiz = (True, st_quiz\<lparr>timeLeft := 0, view := Results\<rparr>)"
proof -
  have h1: "snd (timer_effect 5000 st_quiz)"
    by (simp add: timer_effect_st_quiz)
  have h2: "startedAt st_quiz \<noteq> 0"
    by (simp add: st_quiz_def)
  have h3: "timerMin st_quiz * 60 \<le> (65000 - startedAt st_quiz) div 1000"
    by (simp add: st_quiz_def st_home_def)
  have h4: "\<forall>q \<in> set (quiz st_quiz). qid q \<notin> set inherited_names"
    by (simp add: st_quiz_def mk_question_def inherited_names_def)
  have h5: "map qid (quiz st_quiz) = [''q2'', ''q3'']"
    "''q2'' \<notin> set inherited_names" "''q3'' \<notin> set inherited_names"
    by (simp_all add: st_quiz_def mk_question_def inherited_names_def)
  show ?thesis
    using timer_expiry_finish [OF h1 h2 h3 h4, of True st_quiz] h1 h2 h3 h5
    by (simp add: unanswered_st_quiz)
qed

text \<open>
  C1 as the spec states it fails. A timed session of one minute is started at time
  5000 with two questions; nothing is answered; at time 65000 the timer reaches zero.
  The dialog is shown, and when the user declines the view is still the quiz.
\<close>

theorem timer_expiry_prompts_counterexample:
  "start rnd_quarter 5000 st_home = (st_quiz, None) \<and>
   timer_effect 5000 st_quiz = (st_quiz, True) \<and>
   unanswered st_quiz = 2 \<and>
   timer_tick st_quiz 65000 False st_quiz = (True, st_quiz\<lparr>timeLeft := 0\<rparr>) \<and>
   view (snd (timer_tick st_quiz 65000 False st_quiz)) = Quiz"
proof -
  have t: "timer_tick st_quiz 65000 False st_quiz = (True, st_quiz\<lparr>timeLeft := 0\<rparr>)"
    by (simp add: timer_tick_def Let_def finish_def unanswered_st_quiz)
      (simp add: st_quiz_def st_home_def)
  have "view (st_quiz\<lparr>timeLeft := 0\<rparr>) = Quiz"
    by (simp add: st_quiz_def)
  then show ?thesis
    by (simp add: start_st_home timer_effect_st_quiz unanswered_st_quiz t)
qed

section \<open>Properties of leaving a session\<close>

lemma restartToHome_clears:
  "view (restartToHome st) = Home \<and> quiz (restartToHome st) = [] \<and>
   order (restartToHome st) = [] \<and> idx (restartToHome st) = 0 \<and>
   answers (restartToHome st) = Map.empty \<and> startedAt (restartToHome st) = 0 \<and>
   timeLeft (restartToHome st) = 0"
  by (simp add: restartToHome_def)

text \<open>
  C2 on the code: the button "Nouvelle session" only sets the view. After a session
  with two questions and one recorded answer, the quiz list, the order, the answers,
  \<^verbatim>\<open>startedAt\<close> and \<^verbatim>\<open>timeLeft\<close> are all still there in the home view.
\<close>

theorem nouvelle_session_keeps_session:
  "view st_results = Results \<and>
   view (nouvelle_session st_results) = Home \<and>
   map qid (quiz (nouvelle_session st_results)) = [''q2'', ''q3''] \<and>
   order (nouvelle_session st_results) = [0, 1] \<and>
   answers (nouvelle_session st_results) ''q2'' = Some 0 \<and>
   startedAt (nouvelle_session st_results) = 5000 \<and>
   timeLeft (nouvelle_session st_results) = 42"
  by (simp add: nouvelle_session_def st_results_def st_quiz_def mk_question_def)

section \<open>Properties of the export\<close>

lemma quotes_doubled_append:
  "quotes_doubled xs \<Longrightarrow> quotes_doubled ys \<Longrightarrow> quotes_doubled (xs @ ys)"
proof (induction xs rule: quotes_doubled.induct)
  case 1
  then show ?case by simp
next
  case (2 c)
  then show ?case by (cases ys) simp_all
next
  case (3 c d cs)
  then show ?case by (simp split: if_splits)
qed

lemma quotes_doubled_replaceAll: "quotes_doubled (replaceAll_quote s)"
proof (induction s)
  case Nil
  then show ?case by simp
next
  case (Cons c s)
  have "quotes_doubled (if c = dquote then [dquote, dquote] else [c])"
    by simp
  then show ?case
    using Cons.IH by (simp only: replaceAll_quote.simps quotes_doubled_append)
qed

lemma quotes_doubled_join:
  assumes "quotes_doubled sep" "\<forall>x \<in> set xs. quotes_doubled x"
  shows "quotes_doubled (js_join sep xs)"
  using assms by (induction sep xs rule: js_join.induct) (simp_all add: quotes_doubled_append)

lemma csv_fields_escaped:
  assumes "csv_fields answrs q = Some fs"
  shows "length fs = 9 \<and> fs ! 0 = qid q \<and> fs ! 1 = quoted (chapitre q) \<and> fs ! 2 = niveau q \<and>
         (\<forall>i \<in> {3, 4, 5, 7, 8}. \<exists>c. fs ! i = quoted c \<and> quotes_doubled c) \<and>
         fs ! 6 = (if good answrs q then ''1'' else ''0'')"
proof -
  have e: "\<And>c. quotes_doubled c \<Longrightarrow> \<exists>c'. quoted c = quoted c' \<and> quotes_doubled c'"
    by blast
  have j: "quotes_doubled (js_join '' | '' (map replaceAll_quote (choices q)))"
    by (rule quotes_doubled_join) (simp_all add: dquote_def quotes_doubled_replaceAll)
  have x: "quotes_doubled (case explanation q of Some e \<Rightarrow> replaceAll_quote e | None \<Rightarrow> [])"
    by (simp add: quotes_doubled_replaceAll split: option.splits)
  show ?thesis
    using assms
    by (auto simp: csv_fields_def Let_def good_def quotes_doubled_replaceAll
        split: option.splits if_splits intro!: e j x)
qed

lemma csv_lines_length:
  "csv_lines answrs qs = Some ls \<Longrightarrow> length ls = length qs"
  by (induction qs arbitrary: ls) (auto split: option.splits)

lemma export_one_line_per_question:
  assumes "exportResultsCSV st = Download name txt"
  shows "\<exists>ls. csv_lines (answers st) (quiz st) = Some ls \<and> length ls = length (quiz st) \<and>
           txt = js_join [CHR 0x0A] (csv_header # ls)"
  using assms
  by (auto simp: exportResultsCSV_def csv_lines_length split: if_splits option.splits)

text \<open>
  C3 on the code: the chapter is put between double quotes as it is. For a question of
  the chapter \<^verbatim>\<open>Ch "A"\<close> the second field of the line is \<^verbatim>\<open>"Ch "A""\<close>, while the double
  quotes of the question, the choices, the chosen answer, the explanation and the
  sources are doubled.
\<close>

theorem export_chapitre_not_escaped:
  \<open>exportResultsCSV st_quote =
     Download ''resultats_qcm_acca.csv''
       (csv_header @ [CHR 0x0A] @
        ''q9;"Ch "A"";avance;"Is ""x"" ok?";"yes | say ""no""";"say ""no""";1;"see ""ref""";"S ""1"" || T"'') \<and>
   \<not> quotes_doubled (chapitre q_quote)\<close>
  by (simp add: exportResultsCSV_def st_quote_def csv_fields_def q_quote_def quoted_def dquote_def)

section \<open>Properties of the import\<close>

lemma check_all_None_iff:
  "check_all qs = None \<longleftrightarrow> (\<forall>q \<in> set qs. check_question q = None)"
  by (induction qs) (auto split: option.splits)

lemma check_question_passed:
  assumes "check_question q = None"
  shows "get_prop q ''type'' = Some (JStr ''mcq'') \<and> isArray (get_prop q ''choices'') \<and>
         isNumber (get_prop q ''answerIndex'')"
  using assms by (simp add: check_question_def split: if_splits)

lemma no_answerIndex_fails:
  assumes "get_prop q ''answerIndex'' = None"
  shows "check_question q \<noteq> None"
  using assms by (simp add: check_question_def)

lemma check_rec_ok: "check_question rec_ok = None"
  by (simp add: check_question_def rec_ok_def)

text \<open>
  C4 on the code: the elements of \<^verbatim>\<open>sources\<close> are never looked at. An array whose
  second record has \<^verbatim>\<open>sources: [1, "s"]\<close> passes the validation and replaces the bank.
\<close>

theorem import_accepts_sources_of_numbers:
  "importBank (Some (JArr [rec_ok, rec_sources_numbers])) [rec_ok] =
     ([rec_ok, rec_sources_numbers], Imported)"
  by (simp add: importBank_def check_rec_ok)
    (simp add: check_question_def rec_sources_numbers_def)

text \<open>
  C5 as the code has it: an accepted import replaces the bank by exactly the array
  that was read, and each of its records has the type \<open>mcq\<close>, an array as \<^verbatim>\<open>choices\<close>
  and a number as \<^verbatim>\<open>answerIndex\<close>. Nothing relates that number to the length of
  \<^verbatim>\<open>choices\<close>.
\<close>

theorem import_accepted_bank:
  assumes "importBank parsed cur = (new, Imported)"
  shows "parsed = Some (JArr new) \<and>
         (\<forall>q \<in> set new. get_prop q ''type'' = Some (JStr ''mcq'') \<and>
            isArray (get_prop q ''choices'') \<and> isNumber (get_prop q ''answerIndex''))"
proof -
  from assms obtain qs where p: "parsed = Some (JArr qs)"
    by (auto simp: importBank_def split: option.splits json.splits)
  from assms p have c: "check_all qs = None" and n: "new = qs"
    by (auto simp: importBank_def split: option.splits)
  from c have "\<forall>q \<in> set qs. check_question q = None"
    by (simp add: check_all_None_iff)
  then show ?thesis
    using p n check_question_passed by blast
qed

lemma import_out_of_bounds:
  "importBank (Some (JArr [rec_ok, rec_out_of_bounds])) [rec_ok] =
     ([rec_ok, rec_out_of_bounds], Imported)"
  by (simp add: importBank_def check_rec_ok)
    (simp add: check_question_def rec_out_of_bounds_def)

theorem import_accepted_bank_witness:
  "importBank (Some (JArr [rec_ok, rec_out_of_bounds])) [rec_ok] =
     ([rec_ok, rec_out_of_bounds], Imported) \<and>
   isArray (get_prop rec_out_of_bounds ''choices'') \<and>
   isNumber (get_prop rec_out_of_bounds ''answerIndex'')"
  using import_accepted_bank [OF import_out_of_bounds] import_out_of_bounds by simp

text \<open>
  C5 as the spec states it fails: a record with two choices and \<^verbatim>\<open>answerIndex: 7\<close> is
  accepted into the bank.
\<close>

theorem import_out_of_bounds_counterexample:
  "importBank (Some (JArr [rec_ok, rec_out_of_bounds])) [rec_ok] =
     ([rec_ok, rec_out_of_bounds], Imported) \<and>
   \<not> answerIndex_in_bounds rec_out_of_bounds"
  by (simp add: import_out_of_bounds) (simp add: answerIndex_in_bounds_def rec_out_of_bounds_def)

text \<open>
  C6: if one record of the array fails the validation, for example because it has no
  \<^verbatim>\<open>answerIndex\<close>, the import reports an error and the bank is the one before.
\<close>

theorem import_rejects_invalid:
  assumes "q \<in> set qs"
    and "check_question q \<noteq> None \<or> get_prop q ''answerIndex'' = None"
  shows "\<exists>e. importBank (Some (JArr qs)) cur = (cur, ImportFailed e)"
proof -
  have "check_question q \<noteq> None"
    using assms(2) no_answerIndex_fails by blast
  with assms(1) have "check_all qs \<noteq> None"
    by (auto simp: check_all_None_iff)
  then obtain e where "check_all qs = Some e"
    by auto
  then show ?thesis
    by (simp add: importBank_def)
qed

theorem import_rejects_invalid_witness:
  "rec_no_answerIndex \<in> set [rec_ok, rec_no_answerIndex] \<and>
   get_prop rec_no_answerIndex ''answerIndex'' = None \<and>
   importBank (Some (JArr [rec_ok, rec_no_answerIndex])) [rec_ok] =
     ([rec_ok], ImportFailed NoChoicesOrAnswerIndex)"
proof -
  have h1: "rec_no_answerIndex \<in> set [rec_ok, rec_no_answerIndex]"
    by simp
  have h2: "get_prop rec_no_answerIndex ''answerIndex'' = None"
    by (simp add: rec_no_answerIndex_def)
  have "check_question rec_no_answerIndex = Some NoChoicesOrAnswerIndex"
    by (simp add: check_question_def rec_no_answerIndex_def)
  then have "check_all [rec_ok, rec_no_answerIndex] = Some NoChoicesOrAnswerIndex"
    by (simp add: check_rec_ok)
  then have "\<And>e. importBank (Some (JArr [rec_ok, rec_no_answerIndex])) [rec_ok] =
      ([rec_ok], ImportFailed e) \<Longrightarrow> e = NoChoicesOrAnswerIndex"
    by (simp add: importBank_def)
  then show ?thesis
    using import_rejects_invalid [OF h1 disjI2 [OF h2], of "[rec_ok]"] h1 h2 by blast
qed

section \<open>Properties of the score\<close>

subsection \<open>Rounding to binary64\<close>

lemma round_even_error: "\<bar>of_int (round_even y) - y\<bar> \<le> 1 / 2"
proof -
  have "of_int \<lfloor>y\<rfloor> \<le> y" "y < of_int \<lfloor>y\<rfloor> + 1"
    by linarith+
  then show ?thesis
    by (auto simp: round_even_def Let_def)
qed

lemma binade_le:
  assumes "0 < x"
  shows "2 powi (binade x) \<le> x"
proof -
  obtain p q where pq: "quotient_of x = (p, q)"
    by (cases "quotient_of x")
  have q: "0 < q"
    using pq quotient_of_denom_pos by blast
  have x: "x = of_int p / of_int q"
    using pq by (rule quotient_of_div)
  have p: "0 < p"
    using assms q x by (simp add: zero_less_divide_iff)
  define d where "d = bitlen p - bitlen q"
  show ?thesis
  proof (cases "2 powi d \<le> x")
    case True
    then show ?thesis
      by (simp add: binade_def pq d_def)
  next
    case False
    have bp: "2 ^ nat (bitlen p - 1) \<le> p" and bq: "q < 2 ^ nat (bitlen q)"
      using bitlen_bounds [OF p] bitlen_bounds [OF q] by simp_all
    have bp1: "1 \<le> bitlen p"
      using p bitlen_bounds [OF p] by (smt (verit) bitlen_nonneg bitlen_eq_zero_iff)
    have "(2::rat) powi (d - 1) = 2 powi (bitlen p - 1) / 2 powi (bitlen q)"
      by (simp add: d_def power_int_diff)
    also have "\<dots> = 2 ^ nat (bitlen p - 1) / 2 ^ nat (bitlen q)"
      using bp1 bitlen_nonneg [of q] by (simp add: power_int_def)
    also have "\<dots> \<le> of_int p / of_int q"
    proof -
      have a: "(2::rat) ^ nat (bitlen p - 1) \<le> of_int p"
        using bp by (metis of_int_le_iff of_int_numeral of_int_power)
      have b: "of_int q \<le> (2::rat) ^ nat (bitlen q)"
        using bq by (metis less_imp_le of_int_le_iff of_int_numeral of_int_power)
      have c: "(0::rat) < of_int q"
        using q by simp
      show ?thesis
        using a b c p by (intro frac_le) simp_all
    qed
    finally have "2 powi (d - 1) \<le> x"
      by (simp add: x)
    then show ?thesis
      using False by (simp add: binade_def pq d_def)
  qed
qed

lemma to_double_error:
  assumes "0 < x"
  shows "\<bar>to_double x - x\<bar> \<le> x / 2 ^ 53"
proof -
  define u :: rat where "u = 2 powi (binade x - 52)"
  have u: "0 < u"
    by (simp add: u_def)
  have t: "to_double x = of_int (round_even (x / u)) * u"
    using assms by (simp add: to_double_def Let_def u_def)
  have "to_double x - x = (of_int (round_even (x / u)) - x / u) * u"
    using u by (simp add: t left_diff_distrib)
  then have "\<bar>to_double x - x\<bar> = \<bar>of_int (round_even (x / u)) - x / u\<bar> * u"
    using u by (simp add: abs_mult)
  also have "\<dots> \<le> (1 / 2) * u"
    using u round_even_error [of "x / u"] by (intro mult_right_mono) simp_all
  also have "\<dots> = 2 powi (binade x) / 2 ^ 53"
    by (simp add: u_def power_int_diff)
  also have "\<dots> \<le> x / 2 ^ 53"
    using binade_le [OF assms] by (simp add: divide_right_mono)
  finally show ?thesis .
qed


lemma percent_error:
  assumes "0 < k" "k \<le> n"
  shows "\<bar>to_double (to_double (of_nat k / of_nat n) * 100) - 100 * of_nat k / of_nat n\<bar>
           \<le> 300 / 2 ^ 53"
proof -
  define r :: rat where "r = of_nat k / of_nat n"
  define a where "a = to_double r"
  define b where "b = to_double (a * 100)"
  have r0: "0 < r"
    using assms by (simp add: r_def)
  have r1: "r \<le> 1"
    using assms by (simp add: r_def)
  have ea: "\<bar>a - r\<bar> \<le> r / 2 ^ 53"
    unfolding a_def using r0 by (rule to_double_error)
  have "r / 2 ^ 53 \<le> 1 / 2 ^ 53"
    using r1 by (simp add: divide_right_mono)
  with ea have ea1: "\<bar>a - r\<bar> \<le> 1 / 2 ^ 53"
    by linarith
  have "r / 2 ^ 53 < r"
    using r0 by (simp add: field_simps)
  with ea have a0: "0 < a"
    by linarith
  have "(1::rat) / 2 ^ 53 \<le> 1"
    by simp
  with ea1 r1 have a2: "a \<le> 2"
    by linarith
  have "\<bar>b - a * 100\<bar> \<le> a * 100 / 2 ^ 53"
    unfolding b_def using a0 by (intro to_double_error) simp
  also have "\<dots> \<le> 200 / 2 ^ 53"
    using a2 by simp
  finally have eb: "\<bar>b - a * 100\<bar> \<le> 200 / 2 ^ 53" .
  have "\<bar>b - 100 * r\<bar> \<le> 300 / 2 ^ 53"
    using ea1 eb by linarith
  then show ?thesis
    by (simp add: b_def a_def r_def)
qed

lemma percent_round:
  assumes n: "0 < n" "n < 2 ^ 32" and k: "k \<le> n"
  defines "x \<equiv> (of_nat (100 * k) / of_nat n :: rat)"
  defines "p \<equiv> Math_round (to_double (to_double (of_nat k / of_nat n) * 100))"
  shows "\<lfloor>x + 1 / 2\<rfloor> - 1 \<le> p \<and> p \<le> \<lfloor>x + 1 / 2\<rfloor> \<and> (frac x \<noteq> 1 / 2 \<longrightarrow> p = \<lfloor>x + 1 / 2\<rfloor>)"
proof (cases "k = 0")
  case True
  then show ?thesis
    by (simp add: x_def p_def to_double_def Math_round_def)
next
  case False
  define N where "N = \<lfloor>x + 1 / 2\<rfloor>"
  define b where "b = to_double (to_double (of_nat k / of_nat n) * 100)"
  have pb: "p = \<lfloor>b + 1 / 2\<rfloor>"
    by (simp add: p_def b_def Math_round_def)
  have "\<bar>b - 100 * of_nat k / of_nat n\<bar> \<le> 300 / 2 ^ 53"
    unfolding b_def using False k by (intro percent_error) simp_all
  then have e: "\<bar>b - x\<bar> \<le> 300 / 2 ^ 53"
    by (simp add: x_def)
  have nr: "(0::rat) < of_nat n" "(of_nat n :: rat) < 2 ^ 32"
    using n by (simp_all add: of_nat_less_numeral_power_cancel_iff)
  have N1: "of_int N \<le> x + 1 / 2" and N2: "x + 1 / 2 < of_int N + 1"
    unfolding N_def by linarith+
  have xn: "x * of_nat n = of_nat (100 * k)"
    using nr by (simp add: x_def)
  have gap: "300 / 2 ^ 53 < 1 / (2 * of_nat n :: rat)"
  proof -
    have "300 * (2 * of_nat n :: rat) < 300 * (2 * 2 ^ 32)"
      using nr by simp
    also have "\<dots> < 2 ^ 53"
      by simp
    finally show ?thesis
      using nr by (simp add: field_simps)
  qed
  \<comment> \<open>the distance of \<open>x\<close> to the half-integer above is a positive multiple of \<open>1 / (2 n)\<close>\<close>
  define m' where "m' = int n * (2 * N + 1) - int (200 * k)"
  have m': "of_int m' = 2 * of_nat n * (of_int N + 1 / 2 - x)"
    using xn by (simp add: m'_def algebra_simps)
  have "0 < 2 * of_nat n * (of_int N + 1 / 2 - x)"
    using nr N2 by simp
  then have "(0::rat) < of_int m'"
    by (simp only: m')
  then have "1 \<le> m'"
    by simp
  then have "(1::rat) \<le> of_int m'"
    by simp
  then have "1 \<le> 2 * of_nat n * (of_int N + 1 / 2 - x)"
    by (simp only: m')
  then have up: "1 / (2 * of_nat n) \<le> of_int N + 1 / 2 - x"
    using nr by (simp add: field_simps)
  have hi: "b + 1 / 2 < of_int N + 1"
    using e gap up by linarith
  have "(300::rat) / 2 ^ 53 \<le> 1"
    by simp
  with e N1 have lo: "of_int N - 1 \<le> b + 1 / 2"
    by linarith
  have "p \<le> N"
    unfolding pb using hi by linarith
  moreover have "N - 1 \<le> p"
    unfolding pb using lo by linarith
  moreover have "p = N" if nt: "frac x \<noteq> 1 / 2"
  proof -
    define m where "m = int (200 * k) - int n * (2 * N - 1)"
    have m: "of_int m = 2 * of_nat n * (x - (of_int N - 1 / 2))"
      using xn by (simp add: m_def algebra_simps)
    have "x \<noteq> of_int N - 1 / 2"
    proof
      assume "x = of_int N - 1 / 2"
      then have "x - 1 / 2 = of_int (N - 1)"
        by simp
      then have "x - 1 / 2 \<in> \<int>"
        by (simp only: Ints_of_int)
      then have "frac x = 1 / 2"
        by (simp only: frac_unique_iff) simp
      with nt show False ..
    qed
    with N1 have "0 < x - (of_int N - 1 / 2)"
      by simp
    then have "0 < 2 * of_nat n * (x - (of_int N - 1 / 2))"
      using nr by simp
    then have "(0::rat) < of_int m"
      by (simp only: m)
    then have "1 \<le> m"
      by simp
    then have "(1::rat) \<le> of_int m"
      by simp
    then have "1 \<le> 2 * of_nat n * (x - (of_int N - 1 / 2))"
      by (simp only: m)
    then have "1 / (2 * of_nat n) \<le> x - (of_int N - 1 / 2)"
      using nr by (simp add: field_simps)
    then have "of_int N \<le> b + 1 / 2"
      using e gap by linarith
    then have "N \<le> p"
      unfolding pb by linarith
    with \<open>p \<le> N\<close> show ?thesis
      by simp
  qed
  ultimately show ?thesis
    by (simp add: N_def)
qed

subsection \<open>The loop\<close>

lemma score_loop_fst:
  "fst (score_loop a qs n b) = n + length (filter (good a) qs)"
  by (induction qs arbitrary: n b) (simp_all add: Let_def)

lemma score_loop_snd:
  "snd (score_loop a qs n b) c =
     (if c \<in> chapitre ` set qs
      then Some \<lparr>ok = ok (entry_of b c) + length (filter (\<lambda>q. chapitre q = c \<and> good a q) qs),
                 total_n = total_n (entry_of b c) + length (filter (\<lambda>q. chapitre q = c) qs)\<rparr>
      else b c)"
proof (induction qs arbitrary: n b)
  case Nil
  then show ?case by simp
next
  case (Cons q qs)
  show ?case
  proof (cases "c = chapitre q")
    case True
    have q: "chapitre q = c"
      using True by simp
    show ?thesis
      by (auto simp add: Let_def q Cons.IH entry_of_def filter_empty_conv
          split: option.splits intro!: chap_score.equality)
  next
    case False
    then show ?thesis
      by (simp add: Let_def Cons.IH entry_of_def)
  qed
qed


subsection \<open>The score\<close>

lemma score_value:
  assumes "view st = Results"
  shows "score st =
     Some \<lparr>ok = length (filter (good (answers st)) (quiz st)),
           total_n = length (quiz st),
           pct = percent (length (filter (good (answers st)) (quiz st))) (length (quiz st)),
           byChap = (\<lambda>c. if c \<in> chapitre ` set (quiz st)
                         then Some \<lparr>ok = length (filter (\<lambda>q. chapitre q = c \<and> good (answers st) q) (quiz st)),
                                    total_n = length (filter (\<lambda>q. chapitre q = c) (quiz st))\<rparr>
                         else None)\<rparr>"
proof -
  obtain n b where l: "score_loop (answers st) (quiz st) 0 Map.empty = (n, b)"
    by (cases "score_loop (answers st) (quiz st) 0 Map.empty")
  have n: "n = length (filter (good (answers st)) (quiz st))"
    using score_loop_fst [of "answers st" "quiz st" 0 Map.empty] l by simp
  have b: "b = (\<lambda>c. if c \<in> chapitre ` set (quiz st)
                         then Some \<lparr>ok = length (filter (\<lambda>q. chapitre q = c \<and> good (answers st) q) (quiz st)),
                                    total_n = length (filter (\<lambda>q. chapitre q = c) (quiz st))\<rparr>
                         else None)"
  proof
    fix c
    show "b c = (if c \<in> chapitre ` set (quiz st)
                         then Some \<lparr>ok = length (filter (\<lambda>q. chapitre q = c \<and> good (answers st) q) (quiz st)),
                                    total_n = length (filter (\<lambda>q. chapitre q = c) (quiz st))\<rparr>
                         else None)"
      using score_loop_snd [of "answers st" "quiz st" 0 Map.empty c] l
      by (simp add: entry_of_def)
  qed
  show ?thesis
    using assms by (simp add: score_def l Let_def) (simp add: n b)
qed

text \<open>
  C8 as the code has it, for a quiz none of whose chapter names is a name that every
  object inherits. In the results view the score marks a question correct iff the
  answer recorded for its id equals its \<^verbatim>\<open>answerIndex\<close>; \<open>ok\<close> is the number of
  correct questions and \<open>total_n\<close> the length of the quiz; \<open>pct\<close> is \<open>0\<close> for an empty
  quiz and otherwise \<^verbatim>\<open>Math.round\<close> of the binary64 product \<^verbatim>\<open>(ok / total) * 100\<close>. That
  value is the exact percentage \<open>100 * ok / total\<close> rounded to the nearest integer
  whenever the exact percentage is not halfway between two integers; at a tie it is
  one of the two neighbours. \<open>byChap\<close> has one entry for each chapter of the quiz,
  holding the numbers of correct questions and of questions of that chapter. A
  JavaScript array has fewer than \<open>2 ^ 32\<close> elements.
\<close>

theorem score_correct:
  assumes "view st = Results" and "length (quiz st) < 2 ^ 32"
    and "\<forall>q \<in> set (quiz st). chapitre q \<notin> set inherited_names"
  shows "\<exists>sc. score st = Some sc \<and>
           (\<forall>q. good (answers st) q \<longleftrightarrow> (\<exists>a. answers st (qid q) = Some a \<and> int a = answerIndex q)) \<and>
           ok sc = length (filter (good (answers st)) (quiz st)) \<and>
           total_n sc = length (quiz st) \<and>
           (total_n sc = 0 \<longrightarrow> pct sc = 0) \<and>
           (0 < total_n sc \<longrightarrow>
              pct sc = Math_round (to_double (to_double (of_nat (ok sc) / of_nat (total_n sc)) * 100)) \<and>
              \<lfloor>(of_nat (100 * ok sc) / of_nat (total_n sc) :: rat) + 1 / 2\<rfloor> - 1 \<le> pct sc \<and>
              pct sc \<le> \<lfloor>(of_nat (100 * ok sc) / of_nat (total_n sc) :: rat) + 1 / 2\<rfloor> \<and>
              (frac (of_nat (100 * ok sc) / of_nat (total_n sc) :: rat) \<noteq> 1 / 2 \<longrightarrow>
                 pct sc = \<lfloor>(of_nat (100 * ok sc) / of_nat (total_n sc) :: rat) + 1 / 2\<rfloor>)) \<and>
           (\<forall>c. byChap sc c =
              (if c \<in> chapitre ` set (quiz st)
               then Some \<lparr>ok = length (filter (\<lambda>q. chapitre q = c \<and> good (answers st) q) (quiz st)),
                          total_n = length (filter (\<lambda>q. chapitre q = c) (quiz st))\<rparr>
               else None))"
proof -
  define k where "k = length (filter (good (answers st)) (quiz st))"
  define n where "n = length (quiz st)"
  have kn: "k \<le> n"
    by (simp add: k_def n_def)
  have g: "\<forall>q. good (answers st) q \<longleftrightarrow> (\<exists>a. answers st (qid q) = Some a \<and> int a = answerIndex q)"
    by (simp add: good_def split: option.splits)
  have r: "0 < n \<Longrightarrow>
      \<lfloor>(of_nat (100 * k) / of_nat n :: rat) + 1 / 2\<rfloor> - 1
        \<le> Math_round (to_double (to_double (of_nat k / of_nat n) * 100)) \<and>
      Math_round (to_double (to_double (of_nat k / of_nat n) * 100))
        \<le> \<lfloor>(of_nat (100 * k) / of_nat n :: rat) + 1 / 2\<rfloor> \<and>
      (frac (of_nat (100 * k) / of_nat n :: rat) \<noteq> 1 / 2 \<longrightarrow>
         Math_round (to_double (to_double (of_nat k / of_nat n) * 100)) =
         \<lfloor>(of_nat (100 * k) / of_nat n :: rat) + 1 / 2\<rfloor>)"
    using percent_round [of n k] assms(2) kn by (simp add: n_def)
  show ?thesis
    using r g
    by (simp add: score_value [OF assms(1)] k_def [symmetric] n_def [symmetric] percent_def)
qed



theorem score_correct_witness:
  "view st_four = Results \<and> length (quiz st_four) < 2 ^ 32 \<and>
   map chapitre (quiz st_four) = [''Mesure'', ''Extinction'', ''Mesure'', ''Mesure''] \<and>
   ''Mesure'' \<notin> set inherited_names \<and> ''Extinction'' \<notin> set inherited_names \<and>
   (\<exists>sc. score st_four = Some sc \<and> ok sc = 3 \<and> total_n sc = 4 \<and> pct sc = 75 \<and>
      byChap sc ''Mesure'' = Some \<lparr>ok = 2, total_n = 3\<rparr> \<and>
      byChap sc ''Extinction'' = Some \<lparr>ok = 1, total_n = 1\<rparr>)"
proof -
  have h1: "view st_four = Results"
    by (simp add: st_four_def st_results_def)
  have q: "quiz st_four = [mk_question ''q1'' ''Mesure'' 1, mk_question ''q2'' ''Extinction'' 0,
                          mk_question ''q3'' ''Mesure'' 2, mk_question ''q4'' ''Mesure'' 0]"
    and a: "answers st_four = [''q1'' \<mapsto> 1, ''q2'' \<mapsto> 0, ''q3'' \<mapsto> 2, ''q4'' \<mapsto> 1]"
    by (simp_all add: st_four_def)
  have h2: "length (quiz st_four) < 2 ^ 32"
    by (simp add: q)
  have h3: "\<forall>q \<in> set (quiz st_four). chapitre q \<notin> set inherited_names"
    by (simp add: q mk_question_def inherited_names_def)
  have f: "frac (75::rat) \<noteq> 1 / 2"
    by (simp add: frac_def)
  have r: "\<lfloor>(75::rat) + 1 / 2\<rfloor> = 75"
    by (rule floor_unique) simp_all
  have "\<exists>sc. score st_four = Some sc \<and> ok sc = 3 \<and> total_n sc = 4 \<and> pct sc = 75 \<and>
      byChap sc ''Mesure'' = Some \<lparr>ok = 2, total_n = 3\<rparr> \<and>
      byChap sc ''Extinction'' = Some \<lparr>ok = 1, total_n = 1\<rparr>"
    using score_correct [OF h1 h2 h3]
  proof (elim exE conjE)
    fix sc
    assume sc: "score st_four = Some sc"
      and k: "ok sc = length (filter (good (answers st_four)) (quiz st_four))"
      and n: "total_n sc = length (quiz st_four)"
      and p: "0 < total_n sc \<longrightarrow>
           pct sc = Math_round (to_double (to_double (of_nat (ok sc) / of_nat (total_n sc)) * 100)) \<and>
           \<lfloor>(of_nat (100 * ok sc) / of_nat (total_n sc) :: rat) + 1 / 2\<rfloor> - 1 \<le> pct sc \<and>
           pct sc \<le> \<lfloor>(of_nat (100 * ok sc) / of_nat (total_n sc) :: rat) + 1 / 2\<rfloor> \<and>
           (frac (of_nat (100 * ok sc) / of_nat (total_n sc) :: rat) \<noteq> 1 / 2 \<longrightarrow>
              pct sc = \<lfloor>(of_nat (100 * ok sc) / of_nat (total_n sc) :: rat) + 1 / 2\<rfloor>)"
      and b: "\<forall>c. byChap sc c =
           (if c \<in> chapitre ` set (quiz st_four)
            then Some \<lparr>ok = length (filter (\<lambda>q. chapitre q = c \<and> good (answers st_four) q) (quiz st_four)),
                       total_n = length (filter (\<lambda>q. chapitre q = c) (quiz st_four))\<rparr>
            else None)"
    have k3: "ok sc = 3"
      by (simp add: k q a good_def mk_question_def)
    have n4: "total_n sc = 4"
      by (simp add: n q)
    have x: "(of_nat (100 * ok sc) / of_nat (total_n sc) :: rat) = 75"
      by (simp add: k3 n4)
    have "pct sc = 75"
      using p f r unfolding x by (simp add: n4)
    moreover have "byChap sc ''Mesure'' = Some \<lparr>ok = 2, total_n = 3\<rparr>"
      by (simp add: b q a good_def mk_question_def)
    moreover have "byChap sc ''Extinction'' = Some \<lparr>ok = 1, total_n = 1\<rparr>"
      by (simp add: b q a good_def mk_question_def)
    ultimately show ?thesis
      using sc k3 n4 by simp
  qed
  moreover have "map chapitre (quiz st_four) = [''Mesure'', ''Extinction'', ''Mesure'', ''Mesure'']"
    "''Mesure'' \<notin> set inherited_names" "''Extinction'' \<notin> set inherited_names"
    by (simp_all add: q mk_question_def inherited_names_def)
  ultimately show ?thesis
    using h1 h2 by blast
qed

lemma map_of_constant:
  "map_of (map (\<lambda>q. (f q, c)) qs) k = (if k \<in> f ` set qs then Some c else None)"
  by (induction qs) auto

lemma good_st_forty:
  assumes "q \<in> set quiz_forty"
  shows "good (answers st_forty) q \<longleftrightarrow> answerIndex q = 0"
  using assms by (simp add: good_def st_forty_def map_of_constant)

lemma ok_st_forty: "length (filter (good (answers st_forty)) (quiz st_forty)) = 23"
proof -
  have "filter (good (answers st_forty)) quiz_forty = filter (\<lambda>q. answerIndex q = 0) quiz_forty"
    by (rule filter_cong [OF refl]) (simp add: good_st_forty)
  also have "\<dots> = map (\<lambda>i. mk_question (replicate (Suc i) CHR ''q'') ''Mesure'' (if i < 23 then 0 else 1))
       (filter (\<lambda>i. i < 23) [0..<40])"
    by (simp add: quiz_forty_def filter_map comp_def mk_question_def)
  finally have "length (filter (good (answers st_forty)) quiz_forty) = length (filter (\<lambda>i::nat. i < 23) [0..<40])"
    by simp
  also have "\<dots> = 23"
    by code_simp
  finally show ?thesis
    by (simp add: st_forty_def)
qed

lemma pct_23_of_40: "percent 23 40 = 57"
  by code_simp

text \<open>
  C8 as the spec states it fails: with 23 correct answers out of 40 the exact percentage
  is 57.5, which rounds to 58, but \<^verbatim>\<open>23 / 40\<close> is rounded down to binary64, its product
  with \<open>100\<close> is the binary64 value just below 57.5, and \<open>pct\<close> is 57.
\<close>

theorem score_pct_counterexample:
  "map_option ok (score st_forty) = Some 23 \<and>
   map_option total_n (score st_forty) = Some 40 \<and>
   map_option pct (score st_forty) = Some 57 \<and>
   \<lfloor>(100 * 23 / 40 :: rat) + 1 / 2\<rfloor> = 58"
proof -
  have v: "view st_forty = Results"
    by (simp add: st_forty_def st_results_def)
  have n: "length (quiz st_forty) = 40"
    by (simp add: st_forty_def quiz_forty_def)
  show ?thesis
    by (simp add: score_value [OF v] ok_st_forty n pct_23_of_40)
qed


end
